theory Spec2Isabelle
  imports Main "HOL-Library.Sublist" "HOL-Library.Multiset"
begin

section \<open>Python string primitives used by the module\<close>

text \<open>
  \<^verbatim>\<open>str.replace(old, new)\<close> scans the string from the left and replaces every
  non-overlapping occurrence of \<open>old\<close>. The scan for a non-empty \<open>old\<close> is
  \<open>replace_from\<close>; with an empty \<open>old\<close> Python puts \<open>new\<close> before every
  character and at the end.
\<close>

function replace_from :: "string \<Rightarrow> string \<Rightarrow> string \<Rightarrow> string" where
  "replace_from old new s =
     (if old = [] \<or> s = [] then s
      else if prefix old s then new @ replace_from old new (drop (length old) s)
      else hd s # replace_from old new (tl s))"
  by pat_completeness auto
termination
  by (relation "measure (\<lambda>(old, new, s). length s)") auto

declare replace_from.simps [simp del]

definition py_replace :: "string \<Rightarrow> string \<Rightarrow> string \<Rightarrow> string" where
  "py_replace old new s =
     (if old = [] then new @ concat (map (\<lambda>c. c # new) s) else replace_from old new s)"

text \<open>
  \<^verbatim>\<open>s.split(sep)\<close> for a one-character separator: the pieces between the
  separators, empty pieces included. The result is never the empty list, so the first
  branch of the case distinction below is never taken.
\<close>

fun py_split :: "char \<Rightarrow> string \<Rightarrow> string list" where
  "py_split sep [] = [[]]"
| "py_split sep (c # s) =
     (if c = sep then [] # py_split sep s
      else (case py_split sep s of [] \<Rightarrow> [[c]] | l # ls \<Rightarrow> (c # l) # ls))"

text \<open>\<^verbatim>\<open>sep.join(pieces)\<close>.\<close>

fun py_join :: "string \<Rightarrow> string list \<Rightarrow> string" where
  "py_join sep [] = []"
| "py_join sep [l] = l"
| "py_join sep (l # m # ls) = l @ sep @ py_join sep (m # ls)"

section \<open>Kernel resolution\<close>

text \<open>
  \<^verbatim>\<open>jupyter_client.kernelspec.find_kernel_specs()\<close> returns a dictionary from the
  names of the installed kernels to their resource directories. It depends on the host, so
  the dictionary is an argument of the model, as the list of its items.
  \<^verbatim>\<open>
  def kernel(required_kernel):
      available_kernels = jupyter_client.kernelspec.find_kernel_specs().keys()
      if required_kernel in available_kernels:
          return required_kernel
      else:
          return "python3"
  \<close>
\<close>

definition kernel :: "(string \<times> string) list \<Rightarrow> string \<Rightarrow> string" where
  "kernel find_kernel_specs required_kernel =
     (let available_kernels = map fst find_kernel_specs
      in if required_kernel \<in> set available_kernels then required_kernel else ''python3'')"

section \<open>Paths\<close>

text \<open>
  The module builds its paths with \<^verbatim>\<open>pathlib.Path\<close> on a POSIX host. A path is a
  root (empty, one slash, or two slashes when the string starts with exactly two) and the
  list of its components; empty components and \<open>.\<close> components are dropped when the
  string is parsed.
\<close>

record pure_path =
  path_root :: string
  path_parts :: "string list"

definition Path :: "string \<Rightarrow> pure_path" where
  "Path s =
     \<lparr>path_root =
        (if take 1 s = ''/''
         then (if length (takeWhile (\<lambda>c. c = CHR ''/'') s) = 2 then ''//'' else ''/'')
         else []),
      path_parts = filter (\<lambda>x. x \<noteq> [] \<and> x \<noteq> ''.'') (py_split (CHR ''/'') s)\<rparr>"

text \<open>\<^verbatim>\<open>path.name\<close>: the last component, the empty string when there is none.\<close>

definition path_name :: "pure_path \<Rightarrow> string" where
  "path_name p = (if path_parts p = [] then [] else last (path_parts p))"

text \<open>\<^verbatim>\<open>path.parent\<close>: the path without its last component.\<close>

definition path_parent :: "pure_path \<Rightarrow> pure_path" where
  "path_parent p = p\<lparr>path_parts := butlast (path_parts p)\<rparr>"

text \<open>\<^verbatim>\<open>path / s\<close>: an absolute right operand replaces the path, a relative one is appended.\<close>

definition path_div :: "pure_path \<Rightarrow> string \<Rightarrow> pure_path" where
  "path_div p s =
     (let q = Path s
      in if path_root q \<noteq> [] then q
         else \<lparr>path_root = path_root p, path_parts = path_parts p @ path_parts q\<rparr>)"

text \<open>\<^verbatim>\<open>str(path)\<close>.\<close>

definition path_str :: "pure_path \<Rightarrow> string" where
  "path_str p =
     (if path_root p = [] \<and> path_parts p = [] then ''.''
      else path_root p @ py_join ''/'' (path_parts p))"

text \<open>
  \<^verbatim>\<open>path.stem\<close>, the name without its last suffix: the name up to its last dot, when
  that dot is neither the first nor the last character of the name.
\<close>

definition path_stem :: "pure_path \<Rightarrow> string" where
  "path_stem p =
     (let n = path_name p;
          suffix_len = length (takeWhile (\<lambda>c. c \<noteq> CHR ''.'') (rev n))
      in if CHR ''.'' \<in> set n \<and> 0 < suffix_len \<and> suffix_len + 1 < length n
         then take (length n - suffix_len - 1) n else n)"

section \<open>The report object\<close>

text \<open>
  \<^verbatim>\<open>
  def __init__(self, notebook_path, report_folder):
      self.notebook_path = notebook_path
      path = Path(notebook_path)
      self.notebook_folder = str(path.parent)
      self.notebook = path.name
      self.temporary_notebook = Path("/tmp") / path.name
      self.report_path = Path(report_folder) / path.name.replace("ipynb", "html")
      self.title = path.name.replace(".ipynb", "").replace("_", " ")
  \<close>
\<close>

record report =
  notebook_path :: string
  notebook_folder :: string
  notebook :: string
  temporary_notebook :: pure_path
  report_path :: pure_path
  title :: string

definition Report :: "string \<Rightarrow> string \<Rightarrow> report" where
  "Report nb_path report_folder =
     (let path = Path nb_path
      in \<lparr>notebook_path = nb_path,
          notebook_folder = path_str (path_parent path),
          notebook = path_name path,
          temporary_notebook = path_div (Path ''/tmp'') (path_name path),
          report_path =
            path_div (Path report_folder) (py_replace ''ipynb'' ''html'' (path_name path)),
          title = py_replace ''_'' '' '' (py_replace ''.ipynb'' [] (path_name path))\<rparr>)"

text \<open>
  The report path as the documentation words it: the notebook's stem with the extension
  \<open>.html\<close>, in the report folder.
\<close>

definition documented_report_path :: "string \<Rightarrow> string \<Rightarrow> pure_path" where
  "documented_report_path nb_path report_folder =
     path_div (Path report_folder) (path_stem (Path nb_path) @ ''.html'')"

text \<open>
  The default title as the documentation words it: every underscore of the text is
  replaced by a space.
\<close>

definition underscores_to_spaces :: "string \<Rightarrow> string" where
  "underscores_to_spaces s = map (\<lambda>c. if c = CHR ''_'' then CHR '' '' else c) s"

text \<open>
  The default title as the documentation words it: the file name of the notebook with its
  extension \<open>.ipynb\<close> stripped and every underscore replaced by a space.
\<close>

definition strip_ipynb_extension :: "string \<Rightarrow> string" where
  "strip_ipynb_extension name =
     (if drop (length name - 6) name = ''.ipynb'' then take (length name - 6) name else name)"

definition documented_title :: "string \<Rightarrow> string" where
  "documented_title nb_path =
     underscores_to_spaces (strip_ipynb_extension (path_name (Path nb_path)))"

section \<open>Notebooks\<close>

text \<open>
  A notebook node is opaque to the module except for two fields of its metadata: the
  declared kernel name (\<^verbatim>\<open>metadata.kernelspec.name\<close>) and the optional custom
  \<^verbatim>\<open>metadata.title\<close>. A field that is absent is \<open>None\<close>.
\<close>

record notebook_node =
  kernelspec_name :: "string option"
  metadata_title :: "string option"
  cells :: "string list"

text \<open>
  The title given to the exporter, in \<^verbatim>\<open>notebook_to_report\<close>:
  \<^verbatim>\<open>
  if "title" in notebook["metadata"].keys():
      title = notebook["metadata"]["title"]
  else:
      title = self.title
  \<close>
\<close>

definition resolve_title :: "report \<Rightarrow> notebook_node \<Rightarrow> string" where
  "resolve_title self nb =
     (case metadata_title nb of Some t \<Rightarrow> t | None \<Rightarrow> title self)"

section \<open>Errors and the file system\<close>

text \<open>
  An exception is a value. The first three are raised by the file operations and the
  dictionary lookups of the module itself; \<open>Raised\<close> stands for any other exception that
  a collaborator raises (a failing cell, a time-out, an invalid notebook, a template
  error), with its message.
\<close>

datatype error = FileNotFoundError | IsADirectoryError | KeyError string | Raised string

text \<open>
  The file system holds the text of every file and the set of the directories, both by
  path. A path given as a string names the same file as its parsed form.
\<close>

record filesystem =
  files :: "string \<rightharpoonup> string"
  dirs :: "string set"

definition fs_key :: "string \<Rightarrow> string" where
  "fs_key s = path_str (Path s)"

text \<open>
  Reading a file opened in text mode translates the line endings \<open>\r\n\<close> and \<open>\r\<close>
  to \<open>\n\<close> (Python's universal newlines, the default of \<^verbatim>\<open>open\<close>).
\<close>

definition universal_newlines :: "string \<Rightarrow> string" where
  "universal_newlines s =
     py_replace [CHR 0x0D] [CHR 0x0A] (py_replace [CHR 0x0D, CHR 0x0A] [CHR 0x0A] s)"

definition read_text :: "filesystem \<Rightarrow> string \<Rightarrow> error + string" where
  "read_text fs p =
     (if fs_key p \<in> dirs fs then Inl IsADirectoryError
      else case files fs (fs_key p) of
             None \<Rightarrow> Inl FileNotFoundError
           | Some content \<Rightarrow> Inr (universal_newlines content))"

text \<open>Opening a file for writing needs its directory; the file is created or replaced.\<close>

definition write_text :: "filesystem \<Rightarrow> string \<Rightarrow> string \<Rightarrow> error + filesystem" where
  "write_text fs p content =
     (if fs_key p \<in> dirs fs then Inl IsADirectoryError
      else if path_str (path_parent (Path p)) \<notin> dirs fs then Inl FileNotFoundError
      else Inr (fs\<lparr>files := (files fs)(fs_key p \<mapsto> content)\<rparr>))"

definition unlink :: "filesystem \<Rightarrow> string \<Rightarrow> error + filesystem" where
  "unlink fs p =
     (if fs_key p \<in> dirs fs then Inl IsADirectoryError
      else if files fs (fs_key p) = None then Inl FileNotFoundError
      else Inr (fs\<lparr>files := (files fs)(fs_key p := None)\<rparr>))"

section \<open>Collaborators\<close>

text \<open>
  The exporter object and the settings that \<^verbatim>\<open>notebook_to_report\<close> changes on it.
  \<^verbatim>\<open>HTMLExporter()\<close> starts with no extra loader, the default template and nothing
  excluded.
\<close>

record html_exporter =
  extra_loaders :: "string list"
  template_file :: "string option"
  exclude_input :: bool
  exclude_input_prompt :: bool
  exclude_output_prompt :: bool

definition HTMLExporter :: html_exporter where
  "HTMLExporter =
     \<lparr>extra_loaders = [], template_file = None, exclude_input = False,
      exclude_input_prompt = False, exclude_output_prompt = False\<rparr>"

text \<open>
  The libraries the module delegates to are arguments of the model:
  \<^item> \<open>find_kernel_specs\<close>: the installed kernels of the host;
  \<^item> \<open>reads\<close>, \<open>writes\<close>: the notebook format, from and to the text of a file, for a
    format version;
  \<^item> \<open>preprocess\<close>: the execution engine, given the cell time-out, the kernel name and
    the working directory; the cells run on the host, so it takes and returns the file
    system, and it returns the executed notebook or the exception of the failing cell;
  \<^item> \<open>from_notebook_node\<close>: the exporter, given its settings, the notebook and the
    title (the \<^verbatim>\<open>name\<close> entry of the resources), returning the HTML text.
\<close>

record collaborators =
  find_kernel_specs :: "(string \<times> string) list"
  reads :: "string \<Rightarrow> nat \<Rightarrow> error + notebook_node"
  writes :: "notebook_node \<Rightarrow> error + string"
  preprocess :: "nat \<Rightarrow> string \<Rightarrow> string \<Rightarrow> notebook_node \<Rightarrow> filesystem
                   \<Rightarrow> (error + notebook_node) \<times> filesystem"
  from_notebook_node :: "html_exporter \<Rightarrow> notebook_node \<Rightarrow> string \<Rightarrow> error + string"

text \<open>\<^verbatim>\<open>nbformat.read(path, as_version)\<close> and \<^verbatim>\<open>nbformat.write(notebook, path)\<close>.\<close>

definition nbformat_read ::
  "collaborators \<Rightarrow> filesystem \<Rightarrow> string \<Rightarrow> nat \<Rightarrow> error + notebook_node" where
  "nbformat_read env fs p version =
     (case read_text fs p of Inl e \<Rightarrow> Inl e | Inr content \<Rightarrow> reads env content version)"

definition nbformat_write ::
  "collaborators \<Rightarrow> filesystem \<Rightarrow> notebook_node \<Rightarrow> string \<Rightarrow> error + filesystem" where
  "nbformat_write env fs nb p =
     (case writes env nb of Inl e \<Rightarrow> Inl e | Inr content \<Rightarrow> write_text fs p content)"

section \<open>Executing the notebook\<close>

text \<open>
  A method returns its result, or the exception it raised, together with the file system
  as it is at that moment.
  \<^verbatim>\<open>
  def execute_notebook(self, version=4, timeout=3600):
      try:
          notebook = nbformat.read(str(self.notebook_path), as_version=version)
      except FileNotFoundError as e:
          raise e
      kernel_name = kernel(required_kernel=notebook["metadata"]["kernelspec"]["name"])
      ep = ExecutePreprocessor(timeout=timeout, kernel_name=kernel_name,
                               shutdown_kernel="immediate", startup_timeout=300)
      ep.preprocess(notebook, dict(metadata=dict(path=self.notebook_folder)))
      nbformat.write(notebook, str(self.temporary_notebook))
  \<close>
\<close>

definition execute_notebook ::
  "collaborators \<Rightarrow> report \<Rightarrow> nat \<Rightarrow> nat \<Rightarrow> filesystem \<Rightarrow> (error + unit) \<times> filesystem" where
  "execute_notebook env self version timeout fs =
     (case nbformat_read env fs (notebook_path self) version of
        Inl e \<Rightarrow> (Inl e, fs)
      | Inr nb \<Rightarrow>
          (case kernelspec_name nb of
             None \<Rightarrow> (Inl (KeyError ''kernelspec''), fs)
           | Some required_kernel \<Rightarrow>
               (let kernel_name = kernel (find_kernel_specs env) required_kernel
                in case preprocess env timeout kernel_name (notebook_folder self) nb fs of
                     (Inl e, fs1) \<Rightarrow> (Inl e, fs1)
                   | (Inr executed, fs1) \<Rightarrow>
                       (case nbformat_write env fs1 executed
                               (path_str (temporary_notebook self)) of
                          Inl e \<Rightarrow> (Inl e, fs1)
                        | Inr fs2 \<Rightarrow> (Inr (), fs2)))))"

section \<open>Rendering the report\<close>

text \<open>
  \<^verbatim>\<open>
  def notebook_to_report(self, version=4, template_path=None):
      html_exporter = HTMLExporter()
      if template_path:
          try:
              template_path = Path(template_path)
              loader = jinja2.FileSystemLoader(str(template_path.parent))
              html_exporter.extra_loaders = [loader]
              html_exporter.template_file = template_path.name
              html_exporter.exclude_input = True
              html_exporter.exclude_input_prompt = True
              html_exporter.exclude_output_prompt = True
          except FileNotFoundError as e:
              raise e
      try:
          with self.temporary_notebook.open() as notebook_file:
              notebook = nbformat.read(notebook_file, as_version=version)
          if "title" in notebook["metadata"].keys():
              title = notebook["metadata"]["title"]
          else:
              title = self.title
          resources = dict(metadata=dict(name=title))
          (body, _) = html_exporter.from_notebook_node(notebook, resources=resources)
          self.report_path.write_text(body)
          self.temporary_notebook.unlink()
      except FileNotFoundError as e:
          raise e
  \<close>
  An absent or empty \<open>template_path\<close> is false in the test \<^verbatim>\<open>if template_path\<close>.
\<close>

definition configure_exporter :: "string option \<Rightarrow> html_exporter" where
  "configure_exporter template_path =
     (case template_path of
        None \<Rightarrow> HTMLExporter
      | Some t \<Rightarrow>
          if t = [] then HTMLExporter
          else HTMLExporter
                 \<lparr>extra_loaders := [path_str (path_parent (Path t))],
                  template_file := Some (path_name (Path t)),
                  exclude_input := True,
                  exclude_input_prompt := True,
                  exclude_output_prompt := True\<rparr>)"

definition notebook_to_report ::
  "collaborators \<Rightarrow> report \<Rightarrow> nat \<Rightarrow> string option \<Rightarrow> filesystem
     \<Rightarrow> (error + unit) \<times> filesystem" where
  "notebook_to_report env self version template_path fs =
     (let exporter = configure_exporter template_path
      in case nbformat_read env fs (path_str (temporary_notebook self)) version of
           Inl e \<Rightarrow> (Inl e, fs)
         | Inr nb \<Rightarrow>
             (let title = resolve_title self nb
              in case from_notebook_node env exporter nb title of
                   Inl e \<Rightarrow> (Inl e, fs)
                 | Inr body \<Rightarrow>
                     (case write_text fs (path_str (report_path self)) body of
                        Inl e \<Rightarrow> (Inl e, fs)
                      | Inr fs1 \<Rightarrow>
                          (case unlink fs1 (path_str (temporary_notebook self)) of
                             Inl e \<Rightarrow> (Inl e, fs1)
                           | Inr fs2 \<Rightarrow> (Inr (), fs2)))))"

section \<open>The HTML tree\<close>

text \<open>
  BeautifulSoup turns the report into a tree. A node is a string (text, and the comments
  and declarations, which are strings too) or a tag with a name, its attributes and its
  children. The attributes of a parsed tag are a dictionary; the value of \<open>class\<close> and
  of the other multi-valued attributes is the list of its whitespace-separated words, any
  other value is one string. The type of the attributes is a parameter of the tree,
  because the cleaner replaces the dictionary of some tags by \<^verbatim>\<open>None\<close>.
\<close>

datatype attr_value = Single string | Multi "string list"

type_synonym attrs = "(string \<times> attr_value) list"

datatype 'a node = NavigableString string | Tag string 'a "'a node list"

text \<open>
  The soup object is the list of the top-level nodes: the searches below look at the
  descendants of the soup, never at the soup itself.
\<close>

type_synonym 'a soup = "'a node list"

text \<open>
  \<^verbatim>\<open>findAll(name, {"class": cls})\<close> finds the tags with that name whose \<open>class\<close>
  matches the string \<open>cls\<close>: a list of words matches when one of its words is \<open>cls\<close>
  or when the words joined by single spaces are \<open>cls\<close>; a single string matches when it
  is \<open>cls\<close>; a tag without the attribute does not match.
\<close>

fun matches_value :: "attr_value \<Rightarrow> string \<Rightarrow> bool" where
  "matches_value (Single v) cls = (v = cls)"
| "matches_value (Multi vs) cls = (cls \<in> set vs \<or> py_join '' '' vs = cls)"

definition has_class :: "string \<Rightarrow> attrs \<Rightarrow> bool" where
  "has_class cls a =
     (case map_of a ''class'' of None \<Rightarrow> False | Some v \<Rightarrow> matches_value v cls)"

definition found :: "string \<Rightarrow> string \<Rightarrow> string \<Rightarrow> attrs \<Rightarrow> bool" where
  "found name cls tag_name a = (tag_name = name \<and> has_class cls a)"

text \<open>
  \<^verbatim>\<open>
  for div in light_html.findAll("div", {"class": class_to_remove}):
      div.decompose()
  \<close>
  The list of the found tags is computed before the first of them is destroyed, in
  document order. \<^verbatim>\<open>decompose\<close> takes a tag out of the tree with everything below it;
  on a tag that went away with an ancestor it changes nothing in the tree. So the loop
  leaves the tree without every found tag and its descendants.
\<close>

fun decompose_found :: "string \<Rightarrow> attrs node \<Rightarrow> attrs soup" where
  "decompose_found cls (NavigableString s) = [NavigableString s]"
| "decompose_found cls (Tag n a cs) =
     (if found ''div'' cls n a then []
      else [Tag n a (concat (map (decompose_found cls) cs))])"

definition decompose_class :: "string \<Rightarrow> attrs soup \<Rightarrow> attrs soup" where
  "decompose_class cls light_html = concat (map (decompose_found cls) light_html)"

text \<open>
  \<^verbatim>\<open>
  for tag in light_html.findAll("div", {"class": class_to_replace}):
      tag.replaceWithChildren()
  \<close>
  \<^verbatim>\<open>replaceWithChildren\<close> puts the children of the tag at the place of the tag in its
  parent. A found tag below another found tag is still in the tree when its turn comes,
  as a descendant of the place where the outer tag was, so the loop replaces every found
  tag by its children.
\<close>

fun replace_found_with_children :: "string \<Rightarrow> attrs node \<Rightarrow> attrs soup" where
  "replace_found_with_children cls (NavigableString s) = [NavigableString s]"
| "replace_found_with_children cls (Tag n a cs) =
     (if found ''div'' cls n a then concat (map (replace_found_with_children cls) cs)
      else [Tag n a (concat (map (replace_found_with_children cls) cs))])"

definition replace_class :: "string \<Rightarrow> attrs soup \<Rightarrow> attrs soup" where
  "replace_class cls light_html = concat (map (replace_found_with_children cls) light_html)"

text \<open>
  \<^verbatim>\<open>
  for tag in light_html.findAll("table"):
      if "id" not in tag.attrs.keys():
          tag.attrs = None
  \<close>
\<close>

fun strip_table_attrs :: "attrs node \<Rightarrow> attrs option node" where
  "strip_table_attrs (NavigableString s) = NavigableString s"
| "strip_table_attrs (Tag n a cs) =
     Tag n (if n = ''table'' \<and> ''id'' \<notin> set (map fst a) then None else Some a)
       (map strip_table_attrs cs)"

definition classes_to_remove :: "string list" where
  "classes_to_remove = [''output_text'', ''prompt'']"

definition classes_to_replace :: "string list" where
  "classes_to_replace =
     [''border-box-sizing'', ''container'', ''cell'', ''inner_cell'', ''rendered_html'',
      ''output_prompt'', ''output_wrapper'', ''output'', ''output_area'']"

text \<open>The three groups of loops of \<^verbatim>\<open>clean_html\<close>, on the tree.\<close>

definition removed :: "attrs soup \<Rightarrow> attrs soup" where
  "removed light_html = fold decompose_class classes_to_remove light_html"

definition unwrapped :: "attrs soup \<Rightarrow> attrs soup" where
  "unwrapped light_html = fold replace_class classes_to_replace (removed light_html)"

definition clean_soup :: "attrs soup \<Rightarrow> attrs option soup" where
  "clean_soup light_html = map strip_table_attrs (unwrapped light_html)"

text \<open>
  The cleaning of the tree as the documentation words it, in one pass over the tree: a
  \<open>div\<close> with a class of the deletion set goes away with everything below it; any
  other \<open>div\<close> with a class of the unwrap set is replaced, at its place, by its
  children, cleaned in the same way; every other node stays where it is, with its children
  cleaned.
\<close>

fun documented_clean :: "string list \<Rightarrow> string list \<Rightarrow> attrs node \<Rightarrow> attrs soup" where
  "documented_clean ds ws (NavigableString s) = [NavigableString s]"
| "documented_clean ds ws (Tag n a cs) =
     (if n = ''div'' \<and> list_ex (\<lambda>c. has_class c a) ds then []
      else if n = ''div'' \<and> list_ex (\<lambda>c. has_class c a) ws
      then concat (map (documented_clean ds ws) cs)
      else [Tag n a (concat (map (documented_clean ds ws) cs))])"

text \<open>
  \<^verbatim>\<open>"\n".join([s for s in str(light_html).split("\n") if s])\<close>
\<close>

definition remove_blank_lines :: "string \<Rightarrow> string" where
  "remove_blank_lines html =
     py_join [CHR 0x0A] (filter (\<lambda>s. s \<noteq> []) (py_split (CHR 0x0A) html))"

text \<open>
  The parser and the serialiser of BeautifulSoup are arguments of the cleaner:
  \<open>soup_parse\<close> is \<^verbatim>\<open>BeautifulSoup(text, "html.parser")\<close> and \<open>soup_str\<close> is
  \<^verbatim>\<open>str(soup)\<close>, which prints a tag whose attributes are \<^verbatim>\<open>None\<close> without
  attributes.
\<close>

record html_library =
  soup_parse :: "string \<Rightarrow> attrs soup"
  soup_str :: "attrs option soup \<Rightarrow> string"

text \<open>
  \<open>read_text\<close> and \<open>write_text\<close> are the reads and writes in the preferred encoding
  of the host, and the model identifies a text with its bytes in that encoding.
  \<^verbatim>\<open>codecs.open(path, "w", encoding=...).write(text)\<close> names its encoding: it opens
  the file for writing, which empties it, and then writes the bytes that the codec of
  that name makes of the text. The codecs are a library and an argument of the model:
  \<open>encode encoding text\<close> is these bytes, or the exception of the library for an unknown
  encoding or for a character that the encoding does not have; after such an exception the
  file is left empty.
\<close>

record codecs_library =
  encode :: "string \<Rightarrow> string \<Rightarrow> error + string"

definition codecs_write ::
  "codecs_library \<Rightarrow> filesystem \<Rightarrow> string \<Rightarrow> string \<Rightarrow> string
     \<Rightarrow> (error + unit) \<times> filesystem" where
  "codecs_write cl fs p encoding text =
     (if fs_key p \<in> dirs fs then (Inl IsADirectoryError, fs)
      else if path_str (path_parent (Path p)) \<notin> dirs fs then (Inl FileNotFoundError, fs)
      else case encode cl encoding text of
             Inl e \<Rightarrow> (Inl e, fs\<lparr>files := (files fs)(fs_key p \<mapsto> [])\<rparr>)
           | Inr bytes \<Rightarrow> (Inr (), fs\<lparr>files := (files fs)(fs_key p \<mapsto> bytes)\<rparr>))"

text \<open>
  \<^verbatim>\<open>
  def clean_html(self):
      with self.report_path.open() as bare_html:
          light_html = BeautifulSoup(bare_html, "html.parser")
      ...
      light_html = "\n".join([s for s in str(light_html).split("\n") if s])
      codecs.open(str(self.report_path), "w", encoding="utf-8").write(light_html)
  \<close>
\<close>

definition clean_html ::
  "html_library \<Rightarrow> codecs_library \<Rightarrow> report \<Rightarrow> filesystem
     \<Rightarrow> (error + unit) \<times> filesystem" where
  "clean_html bs cl self fs =
     (case read_text fs (path_str (report_path self)) of
        Inl e \<Rightarrow> (Inl e, fs)
      | Inr bare_html \<Rightarrow>
          (let light_html = clean_soup (soup_parse bs bare_html);
               light_html = remove_blank_lines (soup_str bs light_html)
           in codecs_write cl fs (path_str (report_path self)) ''utf-8'' light_html))"

text \<open>A blank line in the wide sense: a line with nothing on it but spaces and tabs.\<close>

definition blank_line :: "string \<Rightarrow> bool" where
  "blank_line l = list_all (\<lambda>c. c = CHR '' '' \<or> c = CHR 0x09) l"

text \<open>The tags of a tree in document order, each with its name and attributes.\<close>

fun elements :: "'a node \<Rightarrow> (string \<times> 'a) list" where
  "elements (NavigableString s) = []"
| "elements (Tag n a cs) = (n, a) # concat (map elements cs)"

definition soup_elements :: "'a soup \<Rightarrow> (string \<times> 'a) list" where
  "soup_elements light_html = concat (map elements light_html)"


text \<open>A tag of the cleaned tree carries a class when it still has attributes that do.\<close>

definition carries_class :: "string \<Rightarrow> attrs option \<Rightarrow> bool" where
  "carries_class cls a = (case a of None \<Rightarrow> False | Some d \<Rightarrow> has_class cls d)"

section \<open>A sample run\<close>

text \<open>
  A host with the single kernel \<open>python3\<close>, a notebook saved with the kernel \<open>ir\<close>,
  an engine that runs it, and one whose cell fails.
\<close>

definition example_notebook :: notebook_node where
  "example_notebook =
     \<lparr>kernelspec_name = Some ''ir'', metadata_title = None, cells = [''1 + 1'']\<rparr>"

definition example_collaborators :: collaborators where
  "example_collaborators =
     \<lparr>find_kernel_specs = [(''python3'', ''/usr/share/jupyter/kernels/python3'')],
      reads = (\<lambda>content version.
                 if content = ''{}'' then Inr example_notebook
                 else Inl (Raised ''NotJSONError'')),
      writes = (\<lambda>nb. Inr ''{}''),
      preprocess = (\<lambda>timeout kernel_name cwd nb fs.
                      if kernel_name = ''python3'' then (Inr nb, fs)
                      else (Inl (Raised ''NoSuchKernel''), fs)),
      from_notebook_node = (\<lambda>exporter nb title. Inr (''<title>'' @ title @ ''</title>''))\<rparr>"

definition failing_collaborators :: collaborators where
  "failing_collaborators =
     example_collaborators
       \<lparr>preprocess := (\<lambda>timeout kernel_name cwd nb fs.
                          (Inl (Raised ''CellExecutionError''), fs))\<rparr>"

definition example_fs :: filesystem where
  "example_fs =
     \<lparr>files = [''/home/u/daily_summary.ipynb'' \<mapsto> ''{}''],
      dirs = {''/'', ''/tmp'', ''/home'', ''/home/u'', ''/srv'', ''/srv/reports''}\<rparr>"

definition executed_fs :: filesystem where
  "executed_fs =
     example_fs\<lparr>files := (files example_fs)(''/tmp/daily_summary.ipynb'' \<mapsto> ''{}'')\<rparr>"

definition rendered_fs :: filesystem where
  "rendered_fs =
     executed_fs\<lparr>files := ((files executed_fs)
        (''/srv/reports/daily_summary.html'' \<mapsto> ''<title>daily summary</title>''))
        (''/tmp/daily_summary.ipynb'' := None)\<rparr>"

definition example_report :: report where
  "example_report = Report ''/home/u/daily_summary.ipynb'' ''/srv/reports''"

text \<open>
  A page and its tree: a cell wrapper around a prompt, a figure with two tables and a
  span, and line breaks between them. The sample library prints a tree the plain way, a
  tag with its attributes in order and the values in double quotes, and parses the text of
  the sample page into the sample tree.
\<close>

fun plain_attr :: "string \<times> attr_value \<Rightarrow> string" where
  "plain_attr (k, Single v) = '' '' @ k @ ''='' @ [CHR 0x22] @ v @ [CHR 0x22]"
| "plain_attr (k, Multi vs) = '' '' @ k @ ''='' @ [CHR 0x22] @ py_join '' '' vs @ [CHR 0x22]"

fun plain_str_node :: "attrs option node \<Rightarrow> string" where
  "plain_str_node (NavigableString s) = s"
| "plain_str_node (Tag n a cs) =
     ''<'' @ n @ (case a of None \<Rightarrow> [] | Some d \<Rightarrow> concat (map plain_attr d)) @ ''>''
       @ concat (map plain_str_node cs) @ ''</'' @ n @ ''>''"

definition example_soup :: "attrs soup" where
  "example_soup =
     [Tag ''div'' [(''class'', Multi [''cell''])]
        [NavigableString [CHR 0x0A],
         Tag ''div'' [(''class'', Multi [''prompt''])] [NavigableString ''In:''],
         NavigableString [CHR 0x0A],
         Tag ''div'' [(''class'', Multi [''figure''])]
           [Tag ''table'' [(''class'', Multi [''dataframe''])] [],
            Tag ''table'' [(''id'', Single ''t'')] [],
            Tag ''span'' [(''class'', Multi [''prompt''])] []],
         NavigableString [CHR 0x0A]]]"

definition cleaned_soup :: "attrs option soup" where
  "cleaned_soup =
     [NavigableString [CHR 0x0A],
      NavigableString [CHR 0x0A],
      Tag ''div'' (Some [(''class'', Multi [''figure''])])
        [Tag ''table'' None [],
         Tag ''table'' (Some [(''id'', Single ''t'')]) [],
         Tag ''span'' (Some [(''class'', Multi [''prompt''])]) []],
      NavigableString [CHR 0x0A]]"

definition example_page :: string where
  "example_page = concat (map plain_str_node (map (map_node Some) example_soup))"

definition example_bs :: html_library where
  "example_bs =
     \<lparr>soup_parse = (\<lambda>text. if text = example_page then example_soup else [NavigableString text]),
      soup_str = (\<lambda>soup. concat (map plain_str_node soup))\<rparr>"

text \<open>The sample tree after the deletion and unwrap passes.\<close>

definition unwrapped_example :: "attrs soup" where
  "unwrapped_example =
     [NavigableString [CHR 0x0A],
      NavigableString [CHR 0x0A],
      Tag ''div'' [(''class'', Multi [''figure''])]
        [Tag ''table'' [(''class'', Multi [''dataframe''])] [],
         Tag ''table'' [(''id'', Single ''t'')] [],
         Tag ''span'' [(''class'', Multi [''prompt''])] []],
      NavigableString [CHR 0x0A]]"

text \<open>
  The file system with the sample page as the report, and the page after the cleaning. The
  sample codecs know UTF-8 only; the sample pages are ASCII texts, whose UTF-8 bytes are
  the characters themselves.
\<close>

definition report_fs :: filesystem where
  "report_fs =
     example_fs\<lparr>files := (files example_fs)(''/srv/reports/daily_summary.html'' \<mapsto> example_page)\<rparr>"

definition cleaned_page :: string where
  "cleaned_page = remove_blank_lines (concat (map plain_str_node cleaned_soup))"

definition example_codecs :: codecs_library where
  "example_codecs =
     \<lparr>encode = (\<lambda>encoding text.
                  if encoding = ''utf-8'' then Inr text else Inl (Raised ''LookupError''))\<rparr>"

text \<open>A page without markup whose second line is three spaces.\<close>

definition spaced_page :: string where
  "spaced_page = ''a'' @ [CHR 0x0A] @ ''   '' @ [CHR 0x0A] @ ''b''"

definition spaced_fs :: filesystem where
  "spaced_fs =
     example_fs\<lparr>files := (files example_fs)(''/srv/reports/daily_summary.html'' \<mapsto> spaced_page)\<rparr>"

section \<open>Properties\<close>

subsection \<open>Evaluating the string and path functions\<close>

lemma replace_from_Nil: "replace_from old new [] = []"
  by (subst replace_from.simps) simp

lemma replace_from_hit:
  "old \<noteq> [] \<Longrightarrow> prefix old s \<Longrightarrow>
   replace_from old new s = new @ replace_from old new (drop (length old) s)"
  by (subst replace_from.simps) auto

lemma replace_from_miss:
  "\<not> prefix old (c # s) \<Longrightarrow> replace_from old new (c # s) = c # replace_from old new s"
  by (subst replace_from.simps) auto

lemmas replace_from_eval = replace_from_Nil replace_from_hit replace_from_miss

lemmas path_eval = Path_def path_name_def path_div_def path_str_def path_stem_def
  path_parent_def py_replace_def replace_from_eval Let_def

lemmas fs_eval = read_text_def write_text_def unlink_def fs_key_def universal_newlines_def
  nbformat_read_def nbformat_write_def

lemmas example_defs = example_notebook_def example_collaborators_def
  failing_collaborators_def example_fs_def executed_fs_def rendered_fs_def

lemma example_report_fields:
  "notebook_path example_report = ''/home/u/daily_summary.ipynb''"
  "notebook_folder example_report = ''/home/u''"
  "path_str (temporary_notebook example_report) = ''/tmp/daily_summary.ipynb''"
  "path_str (report_path example_report) = ''/srv/reports/daily_summary.html''"
  "title example_report = ''daily summary''"
  by (simp_all add: example_report_def Report_def path_eval)

lemma example_keys:
  "fs_key ''/home/u/daily_summary.ipynb'' = ''/home/u/daily_summary.ipynb''"
  "fs_key ''/tmp/daily_summary.ipynb'' = ''/tmp/daily_summary.ipynb''"
  "fs_key ''/srv/reports/daily_summary.html'' = ''/srv/reports/daily_summary.html''"
  "path_str (path_parent (Path ''/srv/reports/daily_summary.html'')) = ''/srv/reports''"
  "path_str (path_parent (Path ''/tmp/daily_summary.ipynb'')) = ''/tmp''"
  by (simp_all add: fs_key_def path_eval)

lemma universal_newlines_braces: "universal_newlines ''{}'' = ''{}''"
  by (simp add: universal_newlines_def py_replace_def replace_from_eval)

lemmas run_eval = read_text_def write_text_def unlink_def nbformat_read_def nbformat_write_def
  example_report_fields example_keys universal_newlines_braces

subsection \<open>Kernel resolution\<close>

text \<open>
  Claim C1. A requested kernel name that is among the installed kernel names is returned
  unchanged; every other name is answered with the fixed fallback \<open>python3\<close>. The
  resolver is a total function into strings: it has no error result for an unknown name.
\<close>

theorem kernel_resolution:
  "(required_kernel \<in> fst ` set specs \<longrightarrow> kernel specs required_kernel = required_kernel) \<and>
   (required_kernel \<notin> fst ` set specs \<longrightarrow> kernel specs required_kernel = ''python3'')"
  by (simp add: kernel_def)

theorem kernel_resolution_witness:
  "(''ir'' \<in> fst ` set [(''ir'', ''/usr/share/jupyter/kernels/ir'')] \<and>
      kernel [(''ir'', ''/usr/share/jupyter/kernels/ir'')] ''ir'' = ''ir'') \<and>
   (''julia'' \<notin> fst ` set [(''ir'', ''/usr/share/jupyter/kernels/ir'')] \<and>
      kernel [(''ir'', ''/usr/share/jupyter/kernels/ir'')] ''julia'' = ''python3'')"
  using kernel_resolution [of "''ir''" "[(''ir'', ''/usr/share/jupyter/kernels/ir'')]"]
        kernel_resolution [of "''julia''" "[(''ir'', ''/usr/share/jupyter/kernels/ir'')]"]
  by simp

subsection \<open>Report path\<close>

text \<open>
  When the text \<open>ipynb\<close> occurs in the file name only as its extension, the replacement
  does swap the extension.
\<close>

lemma replace_ipynb_extension:
  "\<forall>k<length stem. \<not> prefix ''ipynb'' (drop k (stem @ ''.ipynb'')) \<Longrightarrow>
   py_replace ''ipynb'' ''html'' (stem @ ''.ipynb'') = stem @ ''.html''"
proof (induction stem)
  case Nil
  show ?case by (simp add: py_replace_def replace_from_eval)
next
  case (Cons c stem)
  from Cons.prems have "\<not> prefix ''ipynb'' (drop 0 ((c # stem) @ ''.ipynb''))"
    by blast
  then have miss: "\<not> prefix ''ipynb'' (c # stem @ ''.ipynb'')" by simp
  have "\<forall>k<length stem. \<not> prefix ''ipynb'' (drop k (stem @ ''.ipynb''))"
  proof (intro allI impI)
    fix k assume "k < length stem"
    then have "Suc k < length (c # stem)" by simp
    with Cons.prems have "\<not> prefix ''ipynb'' (drop (Suc k) ((c # stem) @ ''.ipynb''))"
      by blast
    then show "\<not> prefix ''ipynb'' (drop k (stem @ ''.ipynb''))" by simp
  qed
  with Cons.IH have "py_replace ''ipynb'' ''html'' (stem @ ''.ipynb'') = stem @ ''.html''"
    by simp
  with miss show ?case by (simp add: py_replace_def replace_from_miss)
qed

text \<open>
  Claim C5. The report path is the notebook's stem with the extension \<open>.html\<close>, in the
  report folder. The constructor does not swap the extension: it replaces every occurrence
  of the text \<open>ipynb\<close> in the file name. For the notebook \<open>ipynb_notes.ipynb\<close> the
  report is written to \<open>html_notes.html\<close>, where the documented path is
  \<open>ipynb_notes.html\<close>.
\<close>

theorem report_path_replaces_every_ipynb:
  "path_str (report_path (Report ''/home/u/ipynb_notes.ipynb'' ''/srv/reports''))
     = ''/srv/reports/html_notes.html'' \<and>
   path_str (documented_report_path ''/home/u/ipynb_notes.ipynb'' ''/srv/reports'')
     = ''/srv/reports/ipynb_notes.html''"
  by (simp add: Report_def documented_report_path_def path_eval)

subsection \<open>Title resolution\<close>

lemma replace_underscores: "py_replace ''_'' '' '' s = underscores_to_spaces s"
proof -
  have "replace_from ''_'' '' '' s = map (\<lambda>c. if c = CHR ''_'' then CHR '' '' else c) s"
  proof (induction s)
    case Nil
    show ?case by (simp add: replace_from_Nil)
  next
    case (Cons c s)
    show ?case
    proof (cases "c = CHR ''_''")
      case True
      then have "prefix ''_'' (c # s)" by simp
      then show ?thesis using True Cons by (simp add: replace_from_hit)
    next
      case False
      then have "\<not> prefix ''_'' (c # s)" by simp
      then show ?thesis using False Cons by (simp add: replace_from_miss)
    qed
  qed
  then show ?thesis by (simp add: py_replace_def underscores_to_spaces_def)
qed

lemma strip_ipynb_suffix:
  "CHR ''.'' \<notin> set stem \<Longrightarrow> py_replace ''.ipynb'' [] (stem @ ''.ipynb'') = stem"
proof (induction stem)
  case Nil
  have "prefix ''.ipynb'' ''.ipynb''" by simp
  then show ?case by (simp add: py_replace_def replace_from_hit replace_from_Nil)
next
  case (Cons c stem)
  then have "\<not> prefix ''.ipynb'' (c # stem @ ''.ipynb'')" by auto
  then show ?case using Cons by (simp add: py_replace_def replace_from_miss)
qed

text \<open>
  The title given to the exporter is the title of the metadata when there is one, and the
  title of the report object otherwise. For a file name \<open>stem.ipynb\<close> whose stem has no
  dot, the title of the report object is the stem with spaces for underscores.
\<close>

lemma resolve_title_cases:
  "(metadata_title nb = Some X \<longrightarrow> resolve_title self nb = X) \<and>
   (metadata_title nb = None \<longrightarrow>
      resolve_title (Report p f) nb =
        underscores_to_spaces (py_replace ''.ipynb'' [] (path_name (Path p)))) \<and>
   (metadata_title nb = None \<and> path_name (Path p) = stem @ ''.ipynb'' \<and>
    CHR ''.'' \<notin> set stem \<longrightarrow>
      resolve_title (Report p f) nb = underscores_to_spaces stem)"
  by (simp add: resolve_title_def Report_def Let_def replace_underscores strip_ipynb_suffix)

text \<open>
  Claim C6. Without title metadata the title is the file name with \<open>.ipynb\<close> stripped
  and every underscore replaced by a space. The constructor does not strip the extension:
  it takes out every occurrence of the text \<open>.ipynb\<close>. For the notebook
  \<open>a.ipynb_b.ipynb\<close>, which has no title metadata, the exporter gets the title
  \<open>a b\<close>, where the documented title is \<open>a.ipynb b\<close>.
\<close>

theorem title_strips_every_ipynb:
  "resolve_title (Report ''/home/u/a.ipynb_b.ipynb'' ''/srv/reports'')
     \<lparr>kernelspec_name = Some ''python3'', metadata_title = None, cells = []\<rparr> = ''a b'' \<and>
   documented_title ''/home/u/a.ipynb_b.ipynb'' = ''a.ipynb b''"
  by (simp add: resolve_title_def Report_def documented_title_def strip_ipynb_extension_def
        underscores_to_spaces_def path_eval)

subsection \<open>Failures of the execution\<close>

text \<open>
  Claim C9. When the source notebook does not exist, \<open>execute_notebook\<close> raises the
  file-not-found error and leaves the file system as it was. When the engine raises on a
  cell, \<open>execute_notebook\<close> raises that same exception at once: the result is the
  engine's exception with the file system exactly as the engine left it, so nothing is
  retried, no notebook is written and no temporary file is removed.
\<close>

theorem execute_notebook_failures:
  "(files fs (fs_key (notebook_path self)) = None \<and>
    fs_key (notebook_path self) \<notin> dirs fs \<longrightarrow>
      execute_notebook env self version timeout fs = (Inl FileNotFoundError, fs)) \<and>
   (nbformat_read env fs (notebook_path self) version = Inr nb \<and>
    kernelspec_name nb = Some required_kernel \<and>
    preprocess env timeout (kernel (find_kernel_specs env) required_kernel)
      (notebook_folder self) nb fs = (Inl e, fs1) \<longrightarrow>
      execute_notebook env self version timeout fs = (Inl e, fs1))"
  by (simp add: execute_notebook_def nbformat_read_def read_text_def)

theorem execute_notebook_failures_witness:
  "(files example_fs (fs_key (notebook_path (Report ''/home/u/missing.ipynb'' ''/srv/reports'')))
      = None \<and>
    fs_key (notebook_path (Report ''/home/u/missing.ipynb'' ''/srv/reports''))
      \<notin> dirs example_fs \<and>
    execute_notebook example_collaborators (Report ''/home/u/missing.ipynb'' ''/srv/reports'')
      4 3600 example_fs = (Inl FileNotFoundError, example_fs)) \<and>
   (nbformat_read failing_collaborators executed_fs (notebook_path example_report) 4
      = Inr example_notebook \<and>
    kernelspec_name example_notebook = Some ''ir'' \<and>
    preprocess failing_collaborators 3600
      (kernel (find_kernel_specs failing_collaborators) ''ir'')
      (notebook_folder example_report) example_notebook executed_fs
      = (Inl (Raised ''CellExecutionError''), executed_fs) \<and>
    execute_notebook failing_collaborators example_report 4 3600 executed_fs
      = (Inl (Raised ''CellExecutionError''), executed_fs) \<and>
    files executed_fs ''/tmp/daily_summary.ipynb'' = Some ''{}'')"
  using execute_notebook_failures
          [where fs = example_fs and env = example_collaborators and version = 4
             and timeout = 3600 and self = "Report ''/home/u/missing.ipynb'' ''/srv/reports''"]
        execute_notebook_failures
          [where fs = executed_fs and env = failing_collaborators and version = 4
             and timeout = 3600 and self = example_report and nb = example_notebook
             and required_kernel = "''ir''" and e = "Raised ''CellExecutionError''"
             and ?fs1.0 = executed_fs]
  by (simp add: example_defs run_eval fs_key_def Report_def path_eval)

subsection \<open>The success path of the rendering\<close>

text \<open>
  Claim C8. When \<open>notebook_to_report\<close> returns without an exception, the text that the
  exporter produced for the temporary notebook, under the resolved title, has been written
  unchanged to the report path and the temporary notebook has been deleted afterwards: the
  final file system is the initial one with exactly these two changes, and it has no file
  at the temporary path.
\<close>

theorem notebook_to_report_success:
  assumes "notebook_to_report env self version template_path fs = (Inr (), fs')"
  shows "\<exists>nb body.
           nbformat_read env fs (path_str (temporary_notebook self)) version = Inr nb \<and>
           from_notebook_node env (configure_exporter template_path) nb (resolve_title self nb)
             = Inr body \<and>
           fs' = fs\<lparr>files := ((files fs)(fs_key (path_str (report_path self)) \<mapsto> body))
                                   (fs_key (path_str (temporary_notebook self)) := None)\<rparr> \<and>
           files fs' (fs_key (path_str (temporary_notebook self))) = None \<and>
           (fs_key (path_str (report_path self)) \<noteq> fs_key (path_str (temporary_notebook self))
              \<longrightarrow> files fs' (fs_key (path_str (report_path self))) = Some body)"
  using assms
  by (auto simp: notebook_to_report_def Let_def write_text_def unlink_def
           split: sum.splits if_splits)

theorem notebook_to_report_success_witness:
  "notebook_to_report example_collaborators example_report 4 None executed_fs
     = (Inr (), rendered_fs) \<and>
   files rendered_fs (fs_key (path_str (temporary_notebook example_report))) = None \<and>
   files rendered_fs (fs_key (path_str (report_path example_report)))
     = Some ''<title>daily summary</title>''"
proof -
  have run: "notebook_to_report example_collaborators example_report 4 None executed_fs
               = (Inr (), rendered_fs)"
    by (simp add: notebook_to_report_def configure_exporter_def resolve_title_def
          example_defs run_eval)
  from notebook_to_report_success [OF run] obtain nb body where
    "from_notebook_node example_collaborators (configure_exporter None) nb
       (resolve_title example_report nb) = Inr body"
    "files rendered_fs (fs_key (path_str (temporary_notebook example_report))) = None"
    "fs_key (path_str (report_path example_report))
       \<noteq> fs_key (path_str (temporary_notebook example_report))
     \<longrightarrow> files rendered_fs (fs_key (path_str (report_path example_report))) = Some body"
    by blast
  then show ?thesis
    using run by (simp add: rendered_fs_def example_report_fields example_keys)
qed

subsection \<open>Lines of a text\<close>

lemma py_split_not_Nil: "py_split sep s \<noteq> []"
  by (induction s) (auto split: list.splits)

lemma py_split_no_sep: "l \<in> set (py_split sep s) \<Longrightarrow> sep \<notin> set l"
proof (induction s arbitrary: l)
  case Nil
  then show ?case by simp
next
  case (Cons c s)
  then show ?case
    by (cases "py_split sep s") (auto split: if_splits)
qed

lemma py_split_line: "sep \<notin> set l \<Longrightarrow> py_split sep l = [l]"
  by (induction l) auto

lemma py_split_append: "sep \<notin> set l \<Longrightarrow> py_split sep (l @ sep # rest) = l # py_split sep rest"
  by (induction l) auto

lemma py_split_join:
  "ls \<noteq> [] \<Longrightarrow> \<forall>l\<in>set ls. sep \<notin> set l \<Longrightarrow> py_split sep (py_join [sep] ls) = ls"
proof (induction ls)
  case Nil
  then show ?case by simp
next
  case (Cons l ls)
  show ?case
  proof (cases ls)
    case Nil
    with Cons.prems show ?thesis by (simp add: py_split_line)
  next
    case (Cons m ms)
    with Cons.IH Cons.prems have "py_split sep (py_join [sep] (m # ms)) = m # ms"
      by simp
    with Cons Cons.prems show ?thesis by (simp add: py_split_append)
  qed
qed

lemma remove_blank_lines_lines:
  "remove_blank_lines html = [] \<or>
   py_split (CHR 0x0A) (remove_blank_lines html)
     = filter (\<lambda>s. s \<noteq> []) (py_split (CHR 0x0A) html)"
proof (cases "filter (\<lambda>s. s \<noteq> []) (py_split (CHR 0x0A) html) = []")
  case True
  then show ?thesis by (simp add: remove_blank_lines_def)
next
  case False
  have "\<forall>l\<in>set (filter (\<lambda>s. s \<noteq> []) (py_split (CHR 0x0A) html)). CHR 0x0A \<notin> set l"
    by (auto dest: py_split_no_sep)
  with False show ?thesis
    unfolding remove_blank_lines_def by (simp add: py_split_join)
qed

lemma remove_blank_lines_no_blank:
  "remove_blank_lines html = [] \<or> [] \<notin> set (py_split (CHR 0x0A) (remove_blank_lines html))"
  using remove_blank_lines_lines [of html] by auto

lemma remove_blank_lines_idem:
  "remove_blank_lines (remove_blank_lines html) = remove_blank_lines html"
proof -
  from remove_blank_lines_lines [of html] show ?thesis
  proof
    assume "remove_blank_lines html = []"
    then show ?thesis by (simp add: remove_blank_lines_def)
  next
    assume "py_split (CHR 0x0A) (remove_blank_lines html)
      = filter (\<lambda>s. s \<noteq> []) (py_split (CHR 0x0A) html)"
    then show ?thesis by (simp add: remove_blank_lines_def)
  qed
qed

subsection \<open>The passes over the tree\<close>


lemma subseq_concat_map:
  "(\<And>x. x \<in> set xs \<Longrightarrow> subseq (f x) (g x)) \<Longrightarrow> subseq (concat (map f xs)) (concat (map g xs))"
  by (induction xs) (auto intro: list_emb_append_mono)

lemma replace_class_append:
  "replace_class c (xs @ ys) = replace_class c xs @ replace_class c ys"
  by (simp add: replace_class_def)

lemma replace_class_concat:
  "replace_class c (concat xss) = concat (map (replace_class c) xss)"
  by (induction xss) (simp_all add: replace_class_append, simp add: replace_class_def)

lemma decompose_class_append:
  "decompose_class c (xs @ ys) = decompose_class c xs @ decompose_class c ys"
  by (simp add: decompose_class_def)

lemma replace_found_commute:
  "replace_class c1 (replace_found_with_children c2 t)
     = replace_class c2 (replace_found_with_children c1 t)"
proof (induction t)
  case (NavigableString s)
  show ?case by (simp add: replace_class_def)
next
  case (Tag n a cs)
  have inner: "replace_class c1 (concat (map (replace_found_with_children c2) cs))
        = replace_class c2 (concat (map (replace_found_with_children c1) cs))"
    using Tag.IH by (induction cs) (simp_all add: replace_class_append, simp add: replace_class_def)
  show ?case
    using inner by (simp add: replace_class_def)
qed

lemma replace_class_commute:
  "replace_class c1 (replace_class c2 soup) = replace_class c2 (replace_class c1 soup)"
proof (induction soup)
  case Nil
  show ?case by (simp add: replace_class_def)
next
  case (Cons t soup)
  have "replace_class c1 (replace_class c2 (t # soup))
      = replace_class c1 (replace_found_with_children c2 t) @ replace_class c1 (replace_class c2 soup)"
    by (simp add: replace_class_def)
  also have "\<dots> = replace_class c2 (replace_found_with_children c1 t) @ replace_class c2 (replace_class c1 soup)"
    by (simp add: replace_found_commute Cons.IH)
  also have "\<dots> = replace_class c2 (replace_class c1 (t # soup))"
    by (simp add: replace_class_def)
  finally show ?case .
qed

lemma soup_elements_append:
  "soup_elements (xs @ ys) = soup_elements xs @ soup_elements ys"
  by (simp add: soup_elements_def)

lemma soup_elements_concat:
  "soup_elements (concat xss) = concat (map soup_elements xss)"
  by (induction xss) (simp_all add: soup_elements_append, simp add: soup_elements_def)

lemma elements_decompose_found:
  "subseq (soup_elements (decompose_found c t)) (elements t)"
proof (induction t)
  case (NavigableString s)
  show ?case by (simp add: soup_elements_def)
next
  case (Tag n a cs)
  have "subseq (concat (map (\<lambda>x. soup_elements (decompose_found c x)) cs))
               (concat (map elements cs))"
    using Tag.IH by (intro subseq_concat_map) simp
  then show ?case
    by (simp add: soup_elements_def soup_elements_concat [unfolded soup_elements_def] comp_def)
qed

lemma subseq_set: "subseq xs ys \<Longrightarrow> set xs \<subseteq> set ys"
  by (auto dest: list_emb_set)

lemma elements_replace_found:
  "subseq (soup_elements (replace_found_with_children c t)) (elements t)"
proof (induction t)
  case (NavigableString s)
  show ?case by (simp add: soup_elements_def)
next
  case (Tag n a cs)
  have "subseq (concat (map (\<lambda>x. soup_elements (replace_found_with_children c x)) cs))
               (concat (map elements cs))"
    using Tag.IH by (intro subseq_concat_map) simp
  then show ?case
    by (auto simp: soup_elements_def soup_elements_concat [unfolded soup_elements_def] comp_def
             intro: list_emb_Cons)
qed

lemma elements_decompose_class:
  "subseq (soup_elements (decompose_class c soup)) (soup_elements soup)"
  unfolding decompose_class_def soup_elements_concat
  by (simp add: comp_def soup_elements_def [of soup] subseq_concat_map elements_decompose_found)

lemma elements_replace_class:
  "subseq (soup_elements (replace_class c soup)) (soup_elements soup)"
  unfolding replace_class_def soup_elements_concat
  by (simp add: comp_def soup_elements_def [of soup] subseq_concat_map elements_replace_found)

lemma elements_fold_decompose:
  "subseq (soup_elements (fold decompose_class cs soup)) (soup_elements soup)"
proof (induction cs arbitrary: soup)
  case Nil
  show ?case by simp
next
  case (Cons c cs)
  have "subseq (soup_elements (fold decompose_class cs (decompose_class c soup)))
               (soup_elements (decompose_class c soup))"
    by (rule Cons.IH)
  then show ?case
    using elements_decompose_class [of c soup] by (auto intro: subseq_order.trans)
qed

lemma elements_fold_replace:
  "subseq (soup_elements (fold replace_class cs soup)) (soup_elements soup)"
proof (induction cs arbitrary: soup)
  case Nil
  show ?case by simp
next
  case (Cons c cs)
  have "subseq (soup_elements (fold replace_class cs (replace_class c soup)))
               (soup_elements (replace_class c soup))"
    by (rule Cons.IH)
  then show ?case
    using elements_replace_class [of c soup] by (auto intro: subseq_order.trans)
qed

lemma decompose_found_none:
  "(n, a) \<in> set (soup_elements (decompose_found c t)) \<Longrightarrow> \<not> found ''div'' c n a"
proof (induction t)
  case (NavigableString s)
  then show ?case by (simp add: soup_elements_def)
next
  case (Tag m b cs)
  then show ?case
    by (auto simp: soup_elements_def soup_elements_concat [unfolded soup_elements_def]
             split: if_splits)
qed

lemma replace_found_none:
  "(n, a) \<in> set (soup_elements (replace_found_with_children c t)) \<Longrightarrow> \<not> found ''div'' c n a"
proof (induction t)
  case (NavigableString s)
  then show ?case by (simp add: soup_elements_def)
next
  case (Tag m b cs)
  then show ?case
    by (auto simp: soup_elements_def soup_elements_concat [unfolded soup_elements_def]
             split: if_splits)
qed

lemma decompose_class_none:
  "(n, a) \<in> set (soup_elements (decompose_class c soup)) \<Longrightarrow> \<not> found ''div'' c n a"
  by (auto simp: decompose_class_def soup_elements_concat dest: decompose_found_none)

lemma replace_class_none:
  "(n, a) \<in> set (soup_elements (replace_class c soup)) \<Longrightarrow> \<not> found ''div'' c n a"
  by (auto simp: replace_class_def soup_elements_concat dest: replace_found_none)

lemma fold_decompose_none:
  "c \<in> set cs \<Longrightarrow> (n, a) \<in> set (soup_elements (fold decompose_class cs soup)) \<Longrightarrow>
   \<not> found ''div'' c n a"
proof (induction cs arbitrary: soup)
  case Nil
  then show ?case by simp
next
  case (Cons d cs)
  show ?case
  proof (cases "c \<in> set cs")
    case True
    with Cons show ?thesis by simp
  next
    case False
    with Cons.prems have "c = d" by simp
    moreover have "(n, a) \<in> set (soup_elements (decompose_class d soup))"
      using Cons.prems(2) subseq_set [OF elements_fold_decompose [of cs "decompose_class d soup"]]
      by auto
    ultimately show ?thesis by (auto dest: decompose_class_none)
  qed
qed

lemma fold_replace_none:
  "c \<in> set cs \<Longrightarrow> (n, a) \<in> set (soup_elements (fold replace_class cs soup)) \<Longrightarrow>
   \<not> found ''div'' c n a"
proof (induction cs arbitrary: soup)
  case Nil
  then show ?case by simp
next
  case (Cons d cs)
  show ?case
  proof (cases "c \<in> set cs")
    case True
    with Cons show ?thesis by simp
  next
    case False
    with Cons.prems have "c = d" by simp
    moreover have "(n, a) \<in> set (soup_elements (replace_class d soup))"
      using Cons.prems(2) subseq_set [OF elements_fold_replace [of cs "replace_class d soup"]]
      by auto
    ultimately show ?thesis by (auto dest: replace_class_none)
  qed
qed

lemma elements_strip_table_attrs:
  "elements (strip_table_attrs t)
     = map (\<lambda>(n, a). (n, if n = ''table'' \<and> ''id'' \<notin> set (map fst a) then None else Some a))
         (elements t)"
  by (induction t) (auto simp: map_concat comp_def intro!: arg_cong [where f = concat])

lemma elements_clean_soup:
  "soup_elements (clean_soup soup)
     = map (\<lambda>(n, a). (n, if n = ''table'' \<and> ''id'' \<notin> set (map fst a) then None else Some a))
         (soup_elements (unwrapped soup))"
  by (simp add: clean_soup_def soup_elements_def map_concat comp_def elements_strip_table_attrs)

lemmas soup_eval = clean_soup_def unwrapped_def removed_def classes_to_remove_def
  classes_to_replace_def decompose_class_def replace_class_def found_def has_class_def

lemma clean_example_soup: "clean_soup example_soup = cleaned_soup"
  by (simp add: example_soup_def cleaned_soup_def soup_eval)

subsection \<open>The passes in one description\<close>

text \<open>
  The two deletion loops followed by the nine unwrap loops compute the one-pass
  description: each loop adds its class to the set the description works with.
\<close>

lemma concat_map_concat_map:
  "concat (map f (concat (map g xs))) = concat (map (\<lambda>x. concat (map f (g x))) xs)"
  by (induction xs) auto

lemma documented_clean_nothing: "documented_clean [] [] t = [t]"
proof (induction t)
  case (NavigableString s)
  show ?case by simp
next
  case (Tag n a cs)
  have "concat (map (documented_clean [] []) cs) = cs"
    using Tag by (induction cs) auto
  then show ?case by simp
qed

lemma documented_clean_decompose:
  "concat (map (documented_clean ds []) (decompose_found c t)) = documented_clean (c # ds) [] t"
proof (induction t)
  case (NavigableString s)
  show ?case by simp
next
  case (Tag n a cs)
  have "concat (map (documented_clean ds []) (concat (map (decompose_found c) cs)))
        = concat (map (documented_clean (c # ds) []) cs)"
    unfolding concat_map_concat_map using Tag
    by (intro arg_cong [where f = concat] map_cong) auto
  then show ?case by (auto simp: found_def)
qed

lemma documented_clean_replace:
  "concat (map (documented_clean [] ws) (replace_found_with_children c t))
     = documented_clean [] (c # ws) t"
proof (induction t)
  case (NavigableString s)
  show ?case by simp
next
  case (Tag n a cs)
  have "concat (map (documented_clean [] ws) (concat (map (replace_found_with_children c) cs)))
        = concat (map (documented_clean [] (c # ws)) cs)"
    unfolding concat_map_concat_map using Tag
    by (intro arg_cong [where f = concat] map_cong) auto
  then show ?case by (auto simp: found_def)
qed

lemma documented_clean_compose:
  "concat (map (documented_clean [] ws) (documented_clean ds [] t)) = documented_clean ds ws t"
proof (induction t)
  case (NavigableString s)
  show ?case by simp
next
  case (Tag n a cs)
  have "concat (map (documented_clean [] ws) (concat (map (documented_clean ds []) cs)))
        = concat (map (documented_clean ds ws) cs)"
    unfolding concat_map_concat_map using Tag
    by (intro arg_cong [where f = concat] map_cong) auto
  then show ?case by auto
qed

lemma fold_decompose_documented:
  "fold decompose_class ds soup = concat (map (documented_clean ds []) soup)"
proof (induction ds arbitrary: soup)
  case Nil
  show ?case by (induction soup) (simp_all add: documented_clean_nothing)
next
  case (Cons c ds)
  have "fold decompose_class (c # ds) soup = fold decompose_class ds (decompose_class c soup)"
    by simp
  also have "\<dots> = concat (map (documented_clean ds []) (decompose_class c soup))"
    by (rule Cons.IH)
  also have "\<dots> = concat (map (documented_clean (c # ds) []) soup)"
    by (simp add: decompose_class_def concat_map_concat_map documented_clean_decompose)
  finally show ?case .
qed

lemma fold_replace_documented:
  "fold replace_class ws soup = concat (map (documented_clean [] ws) soup)"
proof (induction ws arbitrary: soup)
  case Nil
  show ?case by (induction soup) (simp_all add: documented_clean_nothing)
next
  case (Cons c ws)
  have "fold replace_class (c # ws) soup = fold replace_class ws (replace_class c soup)"
    by simp
  also have "\<dots> = concat (map (documented_clean [] ws) (replace_class c soup))"
    by (rule Cons.IH)
  also have "\<dots> = concat (map (documented_clean [] (c # ws)) soup)"
    by (simp add: replace_class_def concat_map_concat_map documented_clean_replace)
  finally show ?case .
qed

lemma unwrapped_documented:
  "unwrapped soup = concat (map (documented_clean classes_to_remove classes_to_replace) soup)"
  by (simp add: unwrapped_def removed_def fold_decompose_documented fold_replace_documented
        concat_map_concat_map documented_clean_compose)

lemma unwrapped_example_soup: "unwrapped example_soup = unwrapped_example"
  by (simp add: example_soup_def unwrapped_example_def unwrapped_def removed_def
        classes_to_remove_def classes_to_replace_def decompose_class_def replace_class_def
        found_def has_class_def)

subsection \<open>A second run of the passes\<close>

text \<open>
  A pass over a tree in which it finds nothing leaves the tree as it is. After the
  deletion and unwrap passes no \<open>div\<close> is found by any of them, so running them again
  on their result changes nothing. Together with \<open>remove_blank_lines_idem\<close> this is the
  part of the idempotence of \<open>clean_html\<close> that does not depend on the library: a second
  run on the file also parses the text that the first run wrote, and what the parser makes
  of that text is not part of this model.
\<close>

lemma decompose_found_absent:
  "\<forall>(n, a) \<in> set (elements t). \<not> found ''div'' c n a \<Longrightarrow> decompose_found c t = [t]"
proof (induction t)
  case (NavigableString s)
  show ?case by simp
next
  case (Tag n a cs)
  have "concat (map (decompose_found c) cs) = cs"
    using Tag by (induction cs) auto
  with Tag.prems show ?case by simp
qed

lemma replace_found_absent:
  "\<forall>(n, a) \<in> set (elements t). \<not> found ''div'' c n a \<Longrightarrow>
   replace_found_with_children c t = [t]"
proof (induction t)
  case (NavigableString s)
  show ?case by simp
next
  case (Tag n a cs)
  have "concat (map (replace_found_with_children c) cs) = cs"
    using Tag by (induction cs) auto
  with Tag.prems show ?case by simp
qed

lemma decompose_class_absent:
  "\<forall>(n, a) \<in> set (soup_elements soup). \<not> found ''div'' c n a \<Longrightarrow>
   decompose_class c soup = soup"
  by (induction soup)
     (auto simp: decompose_class_def soup_elements_def decompose_found_absent)

lemma replace_class_absent:
  "\<forall>(n, a) \<in> set (soup_elements soup). \<not> found ''div'' c n a \<Longrightarrow>
   replace_class c soup = soup"
  by (induction soup)
     (auto simp: replace_class_def soup_elements_def replace_found_absent)

lemma fold_decompose_absent:
  "\<forall>c \<in> set cs. \<forall>(n, a) \<in> set (soup_elements soup). \<not> found ''div'' c n a \<Longrightarrow>
   fold decompose_class cs soup = soup"
  by (induction cs) (auto simp: decompose_class_absent)

lemma fold_replace_absent:
  "\<forall>c \<in> set cs. \<forall>(n, a) \<in> set (soup_elements soup). \<not> found ''div'' c n a \<Longrightarrow>
   fold replace_class cs soup = soup"
  by (induction cs) (auto simp: replace_class_absent)

lemma unwrapped_idem: "unwrapped (unwrapped soup) = unwrapped soup"
proof -
  have rem: "\<forall>c \<in> set classes_to_remove.
      \<forall>(n, a) \<in> set (soup_elements (unwrapped soup)). \<not> found ''div'' c n a"
  proof (clarify)
    fix c n a
    assume c: "c \<in> set classes_to_remove"
      and el: "(n, a) \<in> set (soup_elements (unwrapped soup))"
      and f: "found ''div'' c n a"
    have "(n, a) \<in> set (soup_elements (removed soup))"
      using el subseq_set [OF elements_fold_replace [of classes_to_replace "removed soup"]]
      by (auto simp: unwrapped_def)
    with c f show False
      using fold_decompose_none [of c classes_to_remove n a soup] by (simp add: removed_def)
  qed
  have rep: "\<forall>c \<in> set classes_to_replace.
      \<forall>(n, a) \<in> set (soup_elements (unwrapped soup)). \<not> found ''div'' c n a"
    using fold_replace_none [of _ classes_to_replace _ _ "removed soup"]
    by (auto simp: unwrapped_def)
  have "removed (unwrapped soup) = unwrapped soup"
    unfolding removed_def using rem by (rule fold_decompose_absent)
  moreover have "fold replace_class classes_to_replace (unwrapped soup) = unwrapped soup"
    using rep by (rule fold_replace_absent)
  ultimately show ?thesis by (simp add: unwrapped_def [of "unwrapped soup"])
qed

subsection \<open>Order of the unwrap passes\<close>

text \<open>
  Claim C7. The nine unwrap passes can run in any order: for every arrangement of the nine
  class names the passes leave the same tree as in the order of the code, and so the same
  cleaned tree after the table pass. Two passes commute, because each of them only splices
  the children of the tags it finds into the place of the tag.
\<close>

theorem unwrap_order_independent:
  assumes "mset order = mset classes_to_replace"
  shows "fold replace_class order soup = fold replace_class classes_to_replace soup \<and>
         map strip_table_attrs (fold replace_class order (removed soup)) = clean_soup soup"
proof -
  have "fold replace_class order = fold replace_class classes_to_replace"
  proof (rule fold_multiset_equiv)
    fix x y
    show "replace_class x \<circ> replace_class y = replace_class y \<circ> replace_class x"
      by (rule ext) (simp add: replace_class_commute)
  next
    show "mset order = mset classes_to_replace" by (rule assms)
  qed
  then show ?thesis by (simp add: clean_soup_def unwrapped_def)
qed

theorem unwrap_order_independent_witness:
  "mset (rev classes_to_replace) = mset classes_to_replace \<and>
   fold replace_class (rev classes_to_replace) example_soup
     = fold replace_class classes_to_replace example_soup \<and>
   map strip_table_attrs (fold replace_class (rev classes_to_replace) (removed example_soup))
     = cleaned_soup"
  using unwrap_order_independent [of "rev classes_to_replace" example_soup]
  by (simp add: clean_example_soup)

subsection \<open>Classes after the cleaning\<close>

text \<open>
  Claim C3, as stated, says that no element of the cleaned document carries one of the
  eleven classes, whatever its tag, and that an element with a class of the unwrap set is
  replaced by its children. The searches of the cleaner are restricted to \<open>div\<close> tags:
  a \<open>span\<close> with the class \<open>prompt\<close> is still there after the cleaning, with its
  class. And the deletion loops run first: a \<open>div\<close> with the classes \<open>prompt\<close> and
  \<open>output\<close> goes away with its children.
\<close>

theorem span_kept_and_deletion_first:
  "(''span'', Some [(''class'', Multi [''prompt''])])
     \<in> set (soup_elements
              (clean_soup [Tag ''span'' [(''class'', Multi [''prompt''])] [NavigableString ''In:'']])) \<and>
   carries_class ''prompt'' (Some [(''class'', Multi [''prompt''])]) \<and>
   clean_soup [Tag ''div'' [(''class'', Multi [''prompt'', ''output''])] [NavigableString ''In:'']]
     = []"
  by (simp add: soup_eval soup_elements_def carries_class_def)

text \<open>
  Claim C3, amended. After the cleaning no \<open>div\<close> element carries any of the two
  deletion classes or of the nine wrapper classes. The tree after the loops is the tree of
  the one-pass description: every \<open>div\<close> with a class of the deletion set is removed
  together with its descendants, every other \<open>div\<close> with a class of the unwrap set is
  replaced by its children at its place, and nothing else is taken out or moved.
\<close>

theorem clean_soup_divs:
  "(\<forall>(n, a) \<in> set (soup_elements (clean_soup soup)).
      n = ''div'' \<longrightarrow>
      (\<forall>c \<in> set (classes_to_remove @ classes_to_replace). \<not> carries_class c a)) \<and>
   unwrapped soup
     = concat (map (documented_clean classes_to_remove classes_to_replace) soup) \<and>
   clean_soup soup
     = map strip_table_attrs
         (concat (map (documented_clean classes_to_remove classes_to_replace) soup))"
proof (intro conjI)
  show "\<forall>(n, a) \<in> set (soup_elements (clean_soup soup)).
      n = ''div'' \<longrightarrow>
      (\<forall>c \<in> set (classes_to_remove @ classes_to_replace). \<not> carries_class c a)"
  proof (clarify)
    fix a c
    assume el: "(''div'', a) \<in> set (soup_elements (clean_soup soup))"
      and c: "c \<in> set (classes_to_remove @ classes_to_replace)"
      and carries: "carries_class c a"
    from el obtain d where a: "a = Some d"
      and d: "(''div'', d) \<in> set (soup_elements (unwrapped soup))"
      by (auto simp: elements_clean_soup)
    from carries a have has: "found ''div'' c ''div'' d"
      by (simp add: carries_class_def found_def)
    from c show False
    proof (simp only: set_append Un_iff, elim disjE)
      assume "c \<in> set classes_to_remove"
      moreover have "(''div'', d) \<in> set (soup_elements (removed soup))"
        using d subseq_set [OF elements_fold_replace [of classes_to_replace "removed soup"]]
        by (auto simp: unwrapped_def)
      ultimately show False
        using has fold_decompose_none [of c classes_to_remove "''div''" d soup]
        by (simp add: removed_def)
    next
      assume "c \<in> set classes_to_replace"
      then show False
        using has d fold_replace_none [of c classes_to_replace "''div''" d "removed soup"]
        by (simp add: unwrapped_def)
    qed
  qed
next
  show "unwrapped soup
     = concat (map (documented_clean classes_to_remove classes_to_replace) soup)"
    by (rule unwrapped_documented)
next
  show "clean_soup soup
     = map strip_table_attrs
         (concat (map (documented_clean classes_to_remove classes_to_replace) soup))"
    by (simp add: clean_soup_def unwrapped_documented)
qed

theorem clean_soup_divs_witness:
  "(''div'', Some [(''class'', Multi [''figure''])])
      \<in> set (soup_elements (clean_soup example_soup)) \<and>
   list_all (\<lambda>c. \<not> carries_class c (Some [(''class'', Multi [''figure''])]))
     (classes_to_remove @ classes_to_replace) \<and>
   concat (map (documented_clean classes_to_remove classes_to_replace) example_soup)
     = unwrapped_example \<and>
   clean_soup example_soup = cleaned_soup"
proof -
  have el: "(''div'', Some [(''class'', Multi [''figure''])])
      \<in> set (soup_elements (clean_soup example_soup))"
    by (simp add: clean_example_soup cleaned_soup_def soup_elements_def)
  show ?thesis
    using el clean_soup_divs [of example_soup]
    by (auto simp: list_all_iff unwrapped_example_soup clean_example_soup)
qed

subsection \<open>Tables\<close>




subsection \<open>Blank lines\<close>

lemma replace_from_absent:
  "old \<noteq> [] \<Longrightarrow> hd old \<notin> set s \<Longrightarrow> replace_from old new s = s"
proof (induction s)
  case Nil
  show ?case by (simp add: replace_from_Nil)
next
  case (Cons c s)
  then have "\<not> prefix old (c # s)"
    by (cases old) auto
  with Cons show ?case by (simp add: replace_from_miss)
qed

lemma universal_newlines_unix: "CHR 0x0D \<notin> set s \<Longrightarrow> universal_newlines s = s"
  by (simp add: universal_newlines_def py_replace_def replace_from_absent)

lemma example_page_unix: "CHR 0x0D \<notin> set example_page"
  by (simp add: example_page_def example_soup_def)

lemma raw_page_has_blank_lines:
  "[] \<in> set (py_split (CHR 0x0A) (soup_str example_bs cleaned_soup))"
  by (simp add: example_bs_def cleaned_soup_def)

lemma py_split_at:
  "py_split sep (u @ sep # w) = py_split sep u @ py_split sep w"
proof (induction u)
  case Nil
  show ?case by simp
next
  case (Cons c u)
  then show ?case
    by (cases "py_split sep u") (auto simp: py_split_not_Nil)
qed

lemma concat_py_split: "concat (py_split sep s) = filter (\<lambda>c. c \<noteq> sep) s"
proof (induction s)
  case Nil
  show ?case by simp
next
  case (Cons c s)
  then show ?case
    by (cases "py_split sep s") (auto simp: py_split_not_Nil)
qed

lemma filter_py_join:
  "filter (\<lambda>c. c \<noteq> sep) (py_join [sep] ls) = filter (\<lambda>c. c \<noteq> sep) (concat ls)"
  by (induction "[sep]" ls rule: py_join.induct) auto

lemma concat_nonempty: "concat (filter (\<lambda>s. s \<noteq> []) ls) = concat ls"
  by (induction ls) auto

lemma remove_blank_lines_keeps_characters:
  "filter (\<lambda>c. c \<noteq> CHR 0x0A) (remove_blank_lines html)
     = filter (\<lambda>c. c \<noteq> CHR 0x0A) html"
  by (simp add: remove_blank_lines_def filter_py_join concat_nonempty concat_py_split)

lemma no_empty_piece:
  assumes "[] \<notin> set (py_split sep d)"
  shows "hd d \<noteq> sep \<and> last d \<noteq> sep \<and> (\<forall>u v. d \<noteq> u @ sep # sep # v)"
proof (intro conjI allI)
  from assms have "d \<noteq> []" by auto
  then obtain c w where d: "d = c # w" by (cases d) auto
  with assms show "hd d \<noteq> sep" by (auto split: if_splits)
  show "last d \<noteq> sep"
  proof
    assume "last d = sep"
    with \<open>d \<noteq> []\<close> have "d = butlast d @ sep # []"
      by (metis append_butlast_last_id)
    then have "py_split sep d = py_split sep (butlast d) @ py_split sep []"
      by (metis py_split_at)
    with assms show False by simp
  qed
  fix u v
  show "d \<noteq> u @ sep # sep # v"
  proof
    assume "d = u @ sep # sep # v"
    then have "py_split sep d = py_split sep u @ py_split sep (sep # v)"
      by (simp add: py_split_at)
    with assms show False by simp
  qed
qed

text \<open>
  Claim C10, as stated, says that the cleaned report has no blank lines. The pass drops
  the lines that are empty strings (\<^verbatim>\<open>if s\<close>) and nothing else: a line of three
  spaces is still in the report after the cleaning.
\<close>

theorem line_of_spaces_stays:
  "clean_html example_bs example_codecs example_report spaced_fs
     = (Inr (), spaced_fs\<lparr>files := (files spaced_fs)
                  (''/srv/reports/daily_summary.html'' \<mapsto> spaced_page)\<rparr>) \<and>
   ''   '' \<in> set (py_split (CHR 0x0A) spaced_page) \<and>
   blank_line ''   ''"
proof -
  have differ: "spaced_page \<noteq> example_page"
    by (simp add: spaced_page_def example_page_def example_soup_def)
  have unix: "CHR 0x0D \<notin> set spaced_page"
    by (simp add: spaced_page_def)
  have kept: "remove_blank_lines spaced_page = spaced_page"
    by (simp add: spaced_page_def remove_blank_lines_def)
  have "clean_html example_bs example_codecs example_report spaced_fs
     = (Inr (), spaced_fs\<lparr>files := (files spaced_fs)
                  (''/srv/reports/daily_summary.html'' \<mapsto> spaced_page)\<rparr>)"
    by (simp add: clean_html_def codecs_write_def read_text_def example_report_fields
          example_keys spaced_fs_def example_fs_def universal_newlines_unix unix differ
          example_bs_def example_codecs_def soup_eval kept)
  moreover have "''   '' \<in> set (py_split (CHR 0x0A) spaced_page)"
    by (simp add: spaced_page_def)
  moreover have "blank_line ''   ''"
    by (simp add: blank_line_def)
  ultimately show ?thesis by simp
qed

text \<open>
  Claim C10, amended. When \<open>clean_html\<close> returns, it has read the report, and the text
  it has written is the serialised tree after one pass that splits it at the line breaks,
  drops the empty pieces and joins the rest with line breaks. That text has the characters
  of the serialised tree other than line breaks, in their order; when it is not empty, its
  lines are the non-empty lines of the serialised tree, in their order, so it does not
  start or end with a line break and has no two line breaks in a row. The file at the
  report path holds the bytes that the codec named \<open>utf-8\<close> makes of that text, and
  nothing else in the file system has changed.
\<close>

theorem clean_html_no_empty_lines:
  assumes "clean_html bs cl self fs = (Inr (), fs')"
  shows "\<exists>bare_html html doc bytes.
           read_text fs (path_str (report_path self)) = Inr bare_html \<and>
           html = soup_str bs (clean_soup (soup_parse bs bare_html)) \<and>
           doc = py_join [CHR 0x0A] (filter (\<lambda>s. s \<noteq> []) (py_split (CHR 0x0A) html)) \<and>
           filter (\<lambda>c. c \<noteq> CHR 0x0A) doc = filter (\<lambda>c. c \<noteq> CHR 0x0A) html \<and>
           (doc \<noteq> [] \<longrightarrow>
              py_split (CHR 0x0A) doc = filter (\<lambda>s. s \<noteq> []) (py_split (CHR 0x0A) html) \<and>
              hd doc \<noteq> CHR 0x0A \<and> last doc \<noteq> CHR 0x0A \<and>
              (\<forall>u v. doc \<noteq> u @ CHR 0x0A # CHR 0x0A # v)) \<and>
           encode cl ''utf-8'' doc = Inr bytes \<and>
           fs' = fs\<lparr>files := (files fs)(fs_key (path_str (report_path self)) \<mapsto> bytes)\<rparr>"
proof -
  from assms obtain bare_html where
    read: "read_text fs (path_str (report_path self)) = Inr bare_html"
    by (auto simp: clean_html_def split: sum.splits)
  define html where "html = soup_str bs (clean_soup (soup_parse bs bare_html))"
  define doc where "doc = remove_blank_lines html"
  from assms read obtain bytes where
    enc: "encode cl ''utf-8'' doc = Inr bytes"
    and fs': "fs' = fs\<lparr>files := (files fs)(fs_key (path_str (report_path self)) \<mapsto> bytes)\<rparr>"
    by (auto simp: clean_html_def codecs_write_def Let_def html_def doc_def
             split: sum.splits if_splits)
  have pass: "doc = py_join [CHR 0x0A] (filter (\<lambda>s. s \<noteq> []) (py_split (CHR 0x0A) html))"
    by (simp add: doc_def remove_blank_lines_def)
  have chars: "filter (\<lambda>c. c \<noteq> CHR 0x0A) doc = filter (\<lambda>c. c \<noteq> CHR 0x0A) html"
    by (simp add: doc_def remove_blank_lines_keeps_characters)
  have lines: "doc \<noteq> [] \<longrightarrow>
      py_split (CHR 0x0A) doc = filter (\<lambda>s. s \<noteq> []) (py_split (CHR 0x0A) html) \<and>
      hd doc \<noteq> CHR 0x0A \<and> last doc \<noteq> CHR 0x0A \<and>
      (\<forall>u v. doc \<noteq> u @ CHR 0x0A # CHR 0x0A # v)"
  proof
    assume "doc \<noteq> []"
    with remove_blank_lines_lines [of html]
    have split: "py_split (CHR 0x0A) doc = filter (\<lambda>s. s \<noteq> []) (py_split (CHR 0x0A) html)"
      by (simp add: doc_def)
    then have "[] \<notin> set (py_split (CHR 0x0A) doc)" by simp
    from no_empty_piece [OF this] split
    show "py_split (CHR 0x0A) doc = filter (\<lambda>s. s \<noteq> []) (py_split (CHR 0x0A) html) \<and>
      hd doc \<noteq> CHR 0x0A \<and> last doc \<noteq> CHR 0x0A \<and>
      (\<forall>u v. doc \<noteq> u @ CHR 0x0A # CHR 0x0A # v)"
      by simp
  qed
  from read pass chars lines enc fs' show ?thesis
    unfolding html_def by blast
qed

theorem clean_html_no_empty_lines_witness:
  "clean_html example_bs example_codecs example_report report_fs
     = (Inr (), report_fs\<lparr>files := (files report_fs)
                  (''/srv/reports/daily_summary.html'' \<mapsto> cleaned_page)\<rparr>) \<and>
   [] \<in> set (py_split (CHR 0x0A) (soup_str example_bs (clean_soup example_soup))) \<and>
   cleaned_page \<noteq> [] \<and> hd cleaned_page \<noteq> CHR 0x0A \<and> last cleaned_page \<noteq> CHR 0x0A \<and>
   [] \<notin> set (py_split (CHR 0x0A) cleaned_page) \<and>
   encode example_codecs ''utf-8'' cleaned_page = Inr cleaned_page"
proof -
  have nonempty: "cleaned_page \<noteq> []"
    by (simp add: cleaned_page_def remove_blank_lines_def cleaned_soup_def)
  have run: "clean_html example_bs example_codecs example_report report_fs
     = (Inr (), report_fs\<lparr>files := (files report_fs)
                  (''/srv/reports/daily_summary.html'' \<mapsto> cleaned_page)\<rparr>)"
    by (simp add: clean_html_def codecs_write_def read_text_def example_report_fields
          example_keys report_fs_def example_fs_def universal_newlines_unix example_page_unix
          example_bs_def example_codecs_def clean_example_soup cleaned_page_def)
  from clean_html_no_empty_lines [OF run] obtain bare_html html doc bytes where
    read: "read_text report_fs (path_str (report_path example_report)) = Inr bare_html"
    and html: "html = soup_str example_bs (clean_soup (soup_parse example_bs bare_html))"
    and doc: "doc = py_join [CHR 0x0A] (filter (\<lambda>s. s \<noteq> []) (py_split (CHR 0x0A) html))"
    and lines: "doc \<noteq> [] \<longrightarrow>
      py_split (CHR 0x0A) doc = filter (\<lambda>s. s \<noteq> []) (py_split (CHR 0x0A) html) \<and>
      hd doc \<noteq> CHR 0x0A \<and> last doc \<noteq> CHR 0x0A \<and>
      (\<forall>u v. doc \<noteq> u @ CHR 0x0A # CHR 0x0A # v)"
    by blast
  from read have "bare_html = example_page"
    by (simp add: read_text_def example_report_fields example_keys report_fs_def
          example_fs_def universal_newlines_unix example_page_unix)
  with html doc have "doc = cleaned_page"
    by (simp add: example_bs_def clean_example_soup cleaned_page_def remove_blank_lines_def)
  with lines nonempty have "hd cleaned_page \<noteq> CHR 0x0A \<and> last cleaned_page \<noteq> CHR 0x0A \<and>
      [] \<notin> set (py_split (CHR 0x0A) cleaned_page)"
    by simp
  then show ?thesis
    using run nonempty raw_page_has_blank_lines
    by (simp add: clean_example_soup example_codecs_def)
qed

end
